theory Spec2Isabelle
  imports Main "HOL-Library.AList" "HOL-Library.Char_ord" "HOL-Library.List_Lexorder"
    "HOL-Library.Sublist"
begin

section \<open>Strings and URL composition\<close>

text \<open>
  Python strings are modelled as \<^typ>\<open>string\<close>, one character per code point below 256.
\<close>

text \<open>\<^verbatim>\<open>s.rstrip(chars)\<close>: drop every trailing character that occurs in \<open>chars\<close>.\<close>

definition rstrip :: "string \<Rightarrow> string \<Rightarrow> string" where
  "rstrip s chars = rev (dropWhile (\<lambda>c. c \<in> set chars) (rev s))"

text \<open>
  \<^verbatim>\<open>append_cache_buster\<close> (lines 31-34).  \<^verbatim>\<open>not token\<close> holds exactly for the empty
  string; \<^verbatim>\<open>'?' in url\<close> is membership of the character.
\<close>

definition append_cache_buster :: "string \<Rightarrow> string \<Rightarrow> string" where
  "append_cache_buster url token =
     (if token = [] \<or> token = ''0'' then url
      else url @ (if CHR ''?'' \<in> set url then ''&'' else ''?'') @ ''ts='' @ token)"

text \<open>
  The URL that \<^verbatim>\<open>download_installer\<close> computes (lines 39-46) and then hands to
  \<^verbatim>\<open>urlopen\<close>.
\<close>

definition download_url :: "string \<Rightarrow> string \<Rightarrow> string \<Rightarrow> string \<Rightarrow> string \<Rightarrow> string" where
  "download_url version archive_name mirror archive_mirror cache_buster =
     (let url = (if version = ''latest''
                 then (let base = rstrip mirror ''/'' in base @ ''/'' @ archive_name)
                 else (let base = rstrip archive_mirror ''/''
                       in base @ ''/'' @ version @ ''/tlnet-final/'' @ archive_name))
      in append_cache_buster url cache_buster)"

text \<open>
  The argument vector that \<^verbatim>\<open>run_install\<close> builds for the installer (lines 182-186);
  \<open>installer\<close> is \<^verbatim>\<open>str(installer)\<close>.
\<close>

definition installer_args :: "string \<Rightarrow> string \<Rightarrow> string \<Rightarrow> string \<Rightarrow> string \<Rightarrow> string list" where
  "installer_args installer version profile mirror archive_mirror =
     (let mirror_url = rstrip mirror ''/'' @ ''/'';
          args = [''perl'', installer, ''--profile='' @ profile, ''--location='' @ mirror_url]
      in if version \<noteq> ''latest''
         then (let repository = rstrip archive_mirror ''/'' @ ''/'' @ version @ ''/tlnet-final''
               in args @ [''--repository='' @ repository])
         else args)"

section \<open>Paths\<close>

text \<open>
  A \<^verbatim>\<open>pathlib.Path\<close> is modelled by its \<^verbatim>\<open>parts\<close>: the list of its components, with
  a single slash as first part of an absolute path; a relative path stays relative.
  \<open>path_str\<close> is \<^verbatim>\<open>str(p)\<close>, \<open>Path\<close> the constructor from a string (empty
  components and single dots are dropped, \<open>..\<close> is kept; the POSIX special case of
  exactly two leading slashes is not modelled), \<open>p @ [n]\<close> is \<^verbatim>\<open>p / n\<close> for a single
  component \<open>n\<close>, and \<open>path_name\<close> and \<open>path_parent\<close> are \<^verbatim>\<open>p.name\<close> and
  \<^verbatim>\<open>p.parent\<close>.
\<close>

type_synonym path = "string list"

fun join_with :: "string \<Rightarrow> string list \<Rightarrow> string" where
  "join_with sep [] = []"
| "join_with sep [x] = x"
| "join_with sep (x # y # ys) = x @ sep @ join_with sep (y # ys)"

definition path_str :: "path \<Rightarrow> string" where
  "path_str p =
     (case p of
        [] \<Rightarrow> ''.''
      | c # cs \<Rightarrow> if c = ''/'' then ''/'' @ join_with ''/'' cs else join_with ''/'' (c # cs))"

fun split_on :: "char \<Rightarrow> string \<Rightarrow> string list" where
  "split_on d [] = [[]]"
| "split_on d (x # xs) =
     (if x = d then [] # split_on d xs
      else (case split_on d xs of [] \<Rightarrow> [[x]] | y # ys \<Rightarrow> (x # y) # ys))"

definition Path :: "string \<Rightarrow> path" where
  "Path s =
     (let names = filter (\<lambda>c. c \<noteq> [] \<and> c \<noteq> ''.'') (split_on CHR ''/'' s)
      in if s \<noteq> [] \<and> hd s = CHR ''/'' then ''/'' # names else names)"

definition path_name :: "path \<Rightarrow> string" where
  "path_name p = (if p = [] \<or> p = [''/''] then [] else last p)"

definition path_parent :: "path \<Rightarrow> path" where
  "path_parent p = (if p = [] \<or> p = [''/''] then p else butlast p)"

text \<open>Whether a path is absolute, and its components after the root.\<close>

definition is_abs :: "path \<Rightarrow> bool" where
  "is_abs p = (case p of [] \<Rightarrow> False | c # cs \<Rightarrow> c = ''/'')"

definition comps :: "path \<Rightarrow> string list" where
  "comps p = (if is_abs p then tl p else p)"

definition SYMLINK_DESTINATION :: path where
  "SYMLINK_DESTINATION = [''/'', ''usr'', ''local'', ''bin'']"

definition KNOWN_TEXLIVE_ROOTS :: "path list" where
  "KNOWN_TEXLIVE_ROOTS = [[''/'', ''usr'', ''local'', ''texlive''], [''/'', ''opt'', ''texlive'']]"

section \<open>The file system\<close>

text \<open>
  The file system is a tree.  A directory holds its entries as an association list whose
  order is the enumeration order of the directory (the first binding of a name is the
  entry; only a name that a directory entry can have is ever found: not empty, not a dot
  or two dots, without a slash).  A symbolic link holds the path it was created with.
  A \<^emph>\<open>place\<close> is the list of the names that lead from the root of the tree to a node
  through directories.  Permissions are not modelled (the script runs as root in a
  container build): the system calls fail for structural reasons only.
\<close>

datatype node = File | Symlink path | Dir "(string \<times> node) list"

datatype oserror =
  FileNotFoundError | FileExistsError | NotADirectoryError | IsADirectoryError | PermissionError
  | TooManyLinks

text \<open>What ends the Python process: \<^verbatim>\<open>SystemExit(n)\<close>, or an \<^verbatim>\<open>OSError\<close> nobody catches.\<close>

datatype exn = SystemExit int | OSError oserror

text \<open>
  The exit status the operating system sees.  \<^verbatim>\<open>SystemExit(n)\<close> hands the integer
  \<open>n\<close> to \<^verbatim>\<open>exit\<close>, and the status of a process is the low eight bits of it (for
  \<open>n\<close> in the range of a C \<^verbatim>\<open>int\<close>, where every return code of a command lies); an
  uncaught exception other than \<^verbatim>\<open>SystemExit\<close> prints a traceback and exits with
  status 1.
\<close>

fun exit_status :: "exn \<Rightarrow> int" where
  "exit_status (SystemExit n) = n mod 256"
| "exit_status (OSError e) = 1"

text \<open>
  What \<^verbatim>\<open>subprocess.run\<close> observes of one command: an \<^verbatim>\<open>OSError\<close> when the
  command could not be started, or its return code (the exit code of the command, or
  \<open>- k\<close> when signal \<open>k\<close> killed it) with what it wrote to standard output and
  standard error.
\<close>

type_synonym proc_result = "oserror + int \<times> string \<times> string"

text \<open>
  The state of the process and of its surroundings: the file system, the place of the
  working directory, \<^verbatim>\<open>os.environ\<close>, everything else outside the process (\<open>ext\<close>,
  left abstract), and the record of the subprocess invocations made so far, each with
  what came of it.
\<close>

record 'x state =
  fs :: node
  cwd :: "string list"
  environ :: "string \<Rightarrow> string option"
  ext :: 'x
  calls :: "(string list \<times> proc_result) list"

definition valid_name :: "string \<Rightarrow> bool" where
  "valid_name c \<longleftrightarrow> c \<noteq> [] \<and> c \<noteq> ''.'' \<and> c \<noteq> ''..'' \<and> CHR ''/'' \<notin> set c"

text \<open>The node at a place.\<close>

fun lookup_node :: "node \<Rightarrow> string list \<Rightarrow> node option" where
  "lookup_node n [] = Some n"
| "lookup_node n (c # cs) =
     (case n of
        Dir es \<Rightarrow>
          (if valid_name c
           then (case map_of es c of None \<Rightarrow> None | Some m \<Rightarrow> lookup_node m cs)
           else None)
      | _ \<Rightarrow> None)"

text \<open>
  \<open>set_entry dir name v\<close> sets (\<open>Some\<close>) or removes (\<open>None\<close>) the entry \<open>name\<close>
  of the directory at the place \<open>dir\<close>; a tree without that directory is left as it is.
\<close>

fun set_entry :: "string list \<Rightarrow> string \<Rightarrow> node option \<Rightarrow> node \<Rightarrow> node" where
  "set_entry [] name v n =
     (case n of
        Dir es \<Rightarrow> Dir (case v of None \<Rightarrow> AList.delete name es | Some m \<Rightarrow> AList.update name m es)
      | _ \<Rightarrow> n)"
| "set_entry (c # cs) name v n =
     (case n of
        Dir es \<Rightarrow>
          (case map_of es c of
             None \<Rightarrow> n
           | Some m \<Rightarrow> Dir (AList.update c (set_entry cs name v m) es))
      | _ \<Rightarrow> n)"

definition MAXSYMLINKS :: nat where
  "MAXSYMLINKS = 40"

text \<open>
  Path resolution as the kernel does it.  \<open>resolve k r cur cs follow\<close> walks the
  components \<open>cs\<close> from the directory at the place \<open>cur\<close>: two dots lead to the
  parent directory (the root is its own parent); a symbolic link met before the last
  component, or as the last component when \<open>follow\<close> is set, is replaced by its target,
  read from the root when the target is absolute and from the directory of the link
  otherwise; \<open>k\<close> is the number of links that may still be followed.  The result is the
  place the path denotes: the place of an existing node, or a place that does not exist in
  an existing directory (where a new entry would be made).  A missing or non-directory
  component before the last one is an error.
\<close>

function resolve :: "nat \<Rightarrow> node \<Rightarrow> string list \<Rightarrow> string list \<Rightarrow> bool \<Rightarrow> oserror + string list" where
  "resolve k r cur [] follow = Inr cur"
| "resolve k r cur (c # cs) follow =
     (if c = ''..'' then resolve k r (butlast cur) cs follow
      else case lookup_node r (cur @ [c]) of
             None \<Rightarrow> if cs = [] then Inr (cur @ [c]) else Inl FileNotFoundError
           | Some n \<Rightarrow>
               (case n of
                  File \<Rightarrow> if cs = [] then Inr (cur @ [c]) else Inl NotADirectoryError
                | Dir es \<Rightarrow> resolve k r (cur @ [c]) cs follow
                | Symlink t \<Rightarrow>
                    if cs = [] \<and> \<not> follow then Inr (cur @ [c])
                    else (case k of
                            0 \<Rightarrow> Inl TooManyLinks
                          | Suc k' \<Rightarrow>
                              resolve k' r (if is_abs t then [] else cur) (comps t @ cs) follow)))"
  by pat_completeness auto
termination
  by (relation "measures [\<lambda>(k, r, cur, cs, follow). k, \<lambda>(k, r, cur, cs, follow). length cs]") auto

text \<open>Where the resolution of a path starts, and the place a path denotes in a state.\<close>

definition start :: "'x state \<Rightarrow> path \<Rightarrow> string list" where
  "start s p = (if is_abs p then [] else cwd s)"

definition locate :: "'x state \<Rightarrow> path \<Rightarrow> bool \<Rightarrow> oserror + string list" where
  "locate s p follow = resolve MAXSYMLINKS (fs s) (start s p) (comps p) follow"

text \<open>\<^verbatim>\<open>os.lstat\<close> and \<^verbatim>\<open>os.stat\<close>: the node a path denotes, if any.\<close>

definition os_stat :: "'x state \<Rightarrow> path \<Rightarrow> bool \<Rightarrow> oserror + node" where
  "os_stat s p follow =
     (case locate s p follow of
        Inl e \<Rightarrow> Inl e
      | Inr l \<Rightarrow> (case lookup_node (fs s) l of None \<Rightarrow> Inl FileNotFoundError | Some n \<Rightarrow> Inr n))"

definition lstat :: "'x state \<Rightarrow> path \<Rightarrow> node option" where
  "lstat s p = (case os_stat s p False of Inl e \<Rightarrow> None | Inr n \<Rightarrow> Some n)"

definition stat :: "'x state \<Rightarrow> path \<Rightarrow> node option" where
  "stat s p = (case os_stat s p True of Inl e \<Rightarrow> None | Inr n \<Rightarrow> Some n)"

text \<open>
  The tests of \<^verbatim>\<open>pathlib\<close>: each of them answers \<open>False\<close> when the path cannot be
  resolved.
\<close>

definition path_exists :: "'x state \<Rightarrow> path \<Rightarrow> bool" where
  "path_exists s p = (stat s p \<noteq> None)"

definition is_file :: "'x state \<Rightarrow> path \<Rightarrow> bool" where
  "is_file s p = (stat s p = Some File)"

definition is_dir :: "'x state \<Rightarrow> path \<Rightarrow> bool" where
  "is_dir s p = (case stat s p of Some (Dir es) \<Rightarrow> True | _ \<Rightarrow> False)"

definition is_symlink :: "'x state \<Rightarrow> path \<Rightarrow> bool" where
  "is_symlink s p = (case lstat s p of Some (Symlink t) \<Rightarrow> True | _ \<Rightarrow> False)"

text \<open>\<^verbatim>\<open>list(p.iterdir())\<close>: the children of a directory, in its enumeration order.\<close>

definition iterdir :: "'x state \<Rightarrow> path \<Rightarrow> oserror + path list" where
  "iterdir s p =
     (case os_stat s p True of
        Inl e \<Rightarrow> Inl e
      | Inr n \<Rightarrow>
          (case n of
             Dir es \<Rightarrow> Inr (map (\<lambda>name. p @ [name]) (remdups (filter valid_name (map fst es))))
           | _ \<Rightarrow> Inl NotADirectoryError))"

text \<open>The system calls \<^verbatim>\<open>os.unlink\<close>, \<^verbatim>\<open>os.symlink\<close> and \<^verbatim>\<open>os.mkdir\<close>.\<close>

definition os_unlink :: "path \<Rightarrow> 'x state \<Rightarrow> oserror + 'x state" where
  "os_unlink p s =
     (case locate s p False of
        Inl e \<Rightarrow> Inl e
      | Inr l \<Rightarrow>
          (case lookup_node (fs s) l of
             None \<Rightarrow> Inl FileNotFoundError
           | Some n \<Rightarrow>
               (case n of
                  Dir es \<Rightarrow> Inl IsADirectoryError
                | _ \<Rightarrow>
                    if l = [] then Inl PermissionError
                    else Inr (s\<lparr>fs := set_entry (butlast l) (last l) None (fs s)\<rparr>))))"

definition create_entry :: "path \<Rightarrow> node \<Rightarrow> 'x state \<Rightarrow> oserror + 'x state" where
  "create_entry p new s =
     (case locate s p False of
        Inl e \<Rightarrow> Inl e
      | Inr l \<Rightarrow>
          (case lookup_node (fs s) l of
             Some n \<Rightarrow> Inl FileExistsError
           | None \<Rightarrow>
               if l = [] \<or> \<not> valid_name (last l) then Inl FileNotFoundError
               else (case lookup_node (fs s) (butlast l) of
                       None \<Rightarrow> Inl FileNotFoundError
                     | Some d \<Rightarrow>
                         (case d of
                            Dir es \<Rightarrow>
                              Inr (s\<lparr>fs := set_entry (butlast l) (last l) (Some new) (fs s)\<rparr>)
                          | _ \<Rightarrow> Inl NotADirectoryError))))"

definition os_symlink :: "path \<Rightarrow> path \<Rightarrow> 'x state \<Rightarrow> oserror + 'x state" where
  "os_symlink src dst s = create_entry dst (Symlink src) s"

definition os_mkdir :: "path \<Rightarrow> 'x state \<Rightarrow> oserror + 'x state" where
  "os_mkdir p s = create_entry p (Dir []) s"

text \<open>
  \<^verbatim>\<open>Path.mkdir(parents, exist_ok)\<close> as pathlib defines it: try \<^verbatim>\<open>os.mkdir\<close>; on
  \<^verbatim>\<open>FileNotFoundError\<close> with \<open>parents\<close> create the parent first and try again
  without \<open>parents\<close>; any other \<^verbatim>\<open>OSError\<close> is swallowed when \<open>exist_ok\<close> holds and
  the path is a directory.  The result is the error raised, if any, and the state reached.
\<close>

function path_mkdir :: "bool \<Rightarrow> bool \<Rightarrow> path \<Rightarrow> 'x state \<Rightarrow> oserror option \<times> 'x state" where
  "path_mkdir parents exist_ok p s =
     (case os_mkdir p s of
        Inr s' \<Rightarrow> (None, s')
      | Inl e \<Rightarrow>
          if e = FileNotFoundError then
            (if \<not> parents \<or> path_parent p = p then (Some e, s)
             else (case path_mkdir True True (path_parent p) s of
                     (Some e', s1) \<Rightarrow> (Some e', s1)
                   | (None, s1) \<Rightarrow> path_mkdir False exist_ok p s1))
          else if \<not> exist_ok \<or> \<not> is_dir s p then (Some e, s)
          else (None, s))"
  by pat_completeness auto
termination
  by (relation "measure (\<lambda>(parents, exist_ok, p, s). 2 * length p + (if parents then 1 else 0))")
    (auto simp: path_parent_def split: if_splits)

section \<open>Text handling of the Python library\<close>

text \<open>
  \<^verbatim>\<open>str.isspace\<close> and the line boundaries of \<^verbatim>\<open>str.splitlines\<close>, for code points
  below 256.
\<close>

definition is_space :: "char \<Rightarrow> bool" where
  "is_space c = ((of_char c :: nat) \<in> set [9, 10, 11, 12, 13, 28, 29, 30, 31, 32, 133, 160])"

definition is_linebreak :: "char \<Rightarrow> bool" where
  "is_linebreak c = ((of_char c :: nat) \<in> set [10, 11, 12, 13, 28, 29, 30, 133])"

definition strip :: "string \<Rightarrow> string" where
  "strip s = rev (dropWhile is_space (rev (dropWhile is_space s)))"

text \<open>
  \<^verbatim>\<open>s.splitlines()\<close>; \<open>cur\<close> holds the characters of the line being read, last first.
  A carriage return followed by a line feed is one boundary.
\<close>

fun splitlines_from :: "string \<Rightarrow> string \<Rightarrow> string list" where
  "splitlines_from cur [] = (if cur = [] then [] else [rev cur])"
| "splitlines_from cur [c] = (if is_linebreak c then [rev cur] else [rev (c # cur)])"
| "splitlines_from cur (c # d # cs) =
     (if of_char c = (13 :: nat) \<and> of_char d = (10 :: nat) then rev cur # splitlines_from [] cs
      else if is_linebreak c then rev cur # splitlines_from [] (d # cs)
      else splitlines_from (c # cur) (d # cs))"

definition splitlines :: "string \<Rightarrow> string list" where
  "splitlines s = splitlines_from [] s"

text \<open>\<^verbatim>\<open>s.split(None, 1)\<close>: the first word and, when there is one, the rest after the blanks.\<close>

definition split_ws1 :: "string \<Rightarrow> string list" where
  "split_ws1 s =
     (let s1 = dropWhile is_space s
      in if s1 = [] then []
         else (let w = takeWhile (\<lambda>c. \<not> is_space c) s1;
                   r = dropWhile is_space (dropWhile (\<lambda>c. \<not> is_space c) s1)
               in if r = [] then [w] else [w, r]))"

section \<open>The process runner\<close>

text \<open>
  The behaviour of the commands outside the script is a parameter \<open>sp\<close>: given the
  argument vector, the working directory and the environment passed to
  \<^verbatim>\<open>subprocess.run\<close> and the current state, it tells what the command does: its
  result, and the file system and outside world it leaves.  Nothing is assumed of it.
  Logging is left out of the model: it decides nothing.
\<close>

type_synonym 'x spawn =
  "string list \<Rightarrow> string option \<Rightarrow> (string \<Rightarrow> string option) option \<Rightarrow> 'x state
     \<Rightarrow> proc_result \<times> node \<times> 'x"

record completed =
  cp_args :: "string list"
  returncode :: int
  stdout :: "string option"
  stderr :: "string option"

text \<open>
  \<^verbatim>\<open>run_subprocess\<close> (lines 59-86).  \<^verbatim>\<open>subprocess.run\<close> raises
  \<^verbatim>\<open>CalledProcessError\<close> when \<open>check\<close> is set and the return code is not zero; that
  and \<^verbatim>\<open>FileNotFoundError\<close> are the two exceptions the function turns into
  \<^verbatim>\<open>SystemExit\<close>; any other \<^verbatim>\<open>OSError\<close> passes through.
\<close>

definition run_subprocess ::
  "'x spawn \<Rightarrow> string list \<Rightarrow> path option \<Rightarrow> bool \<Rightarrow> (string \<Rightarrow> string option) option \<Rightarrow> bool
     \<Rightarrow> 'x state \<Rightarrow> (exn + completed) \<times> 'x state" where
  "run_subprocess sp args cwd_arg check env suppress_output s =
     (case sp args (map_option path_str cwd_arg) env s of
        (res, fs', ext') \<Rightarrow>
          (let s' = s\<lparr>fs := fs', ext := ext', calls := calls s @ [(args, res)]\<rparr>
           in case res of
                Inl e \<Rightarrow>
                  if e = FileNotFoundError then (Inl (SystemExit 1), s')
                  else (Inl (OSError e), s')
              | Inr (rc, out, err) \<Rightarrow>
                  if check \<and> rc \<noteq> 0 then (Inl (SystemExit rc), s')
                  else (Inr \<lparr>cp_args = args, returncode = rc,
                              stdout = (if suppress_output then Some out else None),
                              stderr = (if suppress_output then Some err else None)\<rparr>, s')))"

text \<open>\<^verbatim>\<open>locate_install_tl\<close> (lines 89-97).\<close>

definition locate_install_tl :: "path \<Rightarrow> 'x state \<Rightarrow> exn + path" where
  "locate_install_tl workdir s =
     (let candidate = workdir @ [''install-tl'']
      in if is_file s candidate then Inr candidate
         else (let nested = workdir @ [''install-tl''] @ [''install-tl'']
               in if is_file s nested then Inr nested
                  else Inl (SystemExit 1)))"

text \<open>\<^verbatim>\<open>check_path\<close> (lines 100-107): the probe.  Only \<^verbatim>\<open>SystemExit\<close> is caught.\<close>

definition probe_command :: "string list" where
  "probe_command = [''tex'', ''--version'']"

definition check_path :: "'x spawn \<Rightarrow> 'x state \<Rightarrow> (exn + bool) \<times> 'x state" where
  "check_path sp s =
     (case run_subprocess sp probe_command None True None True s of
        (Inl (SystemExit n), s') \<Rightarrow> (Inr False, s')
      | (Inl (OSError e), s') \<Rightarrow> (Inl (OSError e), s')
      | (Inr cp, s') \<Rightarrow> (Inr True, s'))"

section \<open>Finding the binary directory\<close>

text \<open>
  \<^verbatim>\<open>iter_candidate_bin_dirs\<close> (lines 110-121) is a generator.  Its model is what the
  generator yields up to the first uncaught \<^verbatim>\<open>OSError\<close>, and that error if there is one:
  a consumer that stops at the first candidate never sees an error that comes later.
\<close>

type_synonym 'a gen = "'a list \<times> oserror option"

definition gen_append :: "'a gen \<Rightarrow> 'a gen \<Rightarrow> 'a gen" where
  "gen_append g h = (case snd g of None \<Rightarrow> (fst g @ fst h, snd h) | Some e \<Rightarrow> g)"

definition arch_scan :: "'x state \<Rightarrow> path \<Rightarrow> path gen" where
  "arch_scan s bin_root =
     (case iterdir s bin_root of
        Inl e \<Rightarrow> ([], Some e)
      | Inr arch_dirs \<Rightarrow> (filter (\<lambda>arch_dir. is_file s (arch_dir @ [''tex''])) arch_dirs, None))"

definition entry_scan :: "'x state \<Rightarrow> path \<Rightarrow> path gen" where
  "entry_scan s entry =
     (let bin_root = entry @ [''bin'']
      in if \<not> is_dir s bin_root then ([], None) else arch_scan s bin_root)"

fun entries_scan :: "'x state \<Rightarrow> path list \<Rightarrow> path gen" where
  "entries_scan s [] = ([], None)"
| "entries_scan s (entry # entries) = gen_append (entry_scan s entry) (entries_scan s entries)"

text \<open>
  \<^verbatim>\<open>sorted(root.iterdir(), reverse=True)\<close>: paths compare as the tuples of their parts,
  strings by code point; equal paths are the same path, so the reversed sort is the
  sort in reverse.
\<close>

fun roots_scan :: "'x state \<Rightarrow> path list \<Rightarrow> path gen" where
  "roots_scan s [] = ([], None)"
| "roots_scan s (root # roots) =
     (if \<not> path_exists s root then roots_scan s roots
      else (case iterdir s root of
              Inl e \<Rightarrow> ([], Some e)
            | Inr entries \<Rightarrow>
                gen_append (entries_scan s (rev (sort entries))) (roots_scan s roots)))"

definition iter_candidate_bin_dirs :: "'x state \<Rightarrow> path gen" where
  "iter_candidate_bin_dirs s = roots_scan s KNOWN_TEXLIVE_ROOTS"

text \<open>
  \<^verbatim>\<open>bin_dir_from_tlmgr\<close> (lines 124-143).  \<open>texmfroot_line\<close> is the body of the loop
  over the lines of the output: the candidate this line gives, if any.
\<close>

definition texmfroot_line :: "'x state \<Rightarrow> string \<Rightarrow> oserror + path option" where
  "texmfroot_line s line =
     (let stripped = strip line
      in if prefix ''TEXMFROOT'' stripped then
           (let parts = split_ws1 stripped
            in if length parts = 2 then
                 (let root = Path (strip (parts ! 1));
                      bin_root = root @ [''bin'']
                  in if is_dir s bin_root then
                       (case iterdir s bin_root of
                          Inl e \<Rightarrow> Inl e
                        | Inr candidates \<Rightarrow>
                            Inr (find (\<lambda>candidate. is_file s (candidate @ [''tex''])) candidates))
                     else Inr None)
               else Inr None)
         else Inr None)"

fun texmfroot_lines :: "'x state \<Rightarrow> string list \<Rightarrow> oserror + path option" where
  "texmfroot_lines s [] = Inr None"
| "texmfroot_lines s (line # lines) =
     (case texmfroot_line s line of
        Inl e \<Rightarrow> Inl e
      | Inr (Some candidate) \<Rightarrow> Inr (Some candidate)
      | Inr None \<Rightarrow> texmfroot_lines s lines)"

definition bin_dir_from_tlmgr :: "'x spawn \<Rightarrow> 'x state \<Rightarrow> (exn + path option) \<times> 'x state" where
  "bin_dir_from_tlmgr sp s =
     (let env = (case environ s ''PATH'' of
                   None \<Rightarrow> (environ s)(''PATH'' \<mapsto> ''/usr/local/bin:/usr/bin:/bin'')
                 | Some v \<Rightarrow> environ s)
      in case run_subprocess sp [''tlmgr'', ''conf'', ''texmf''] None True (Some env) True s of
           (Inl (SystemExit n), s') \<Rightarrow> (Inr None, s')
         | (Inl (OSError e), s') \<Rightarrow> (Inl (OSError e), s')
         | (Inr result, s') \<Rightarrow>
             (case texmfroot_lines s'
                     (splitlines (case stdout result of None \<Rightarrow> [] | Some out \<Rightarrow> out)) of
                Inl e \<Rightarrow> (Inl (OSError e), s')
              | Inr found \<Rightarrow> (Inr found, s')))"

text \<open>\<^verbatim>\<open>resolve_texlive_bin_dir\<close> (lines 146-149): the first candidate, else ask tlmgr.\<close>

definition resolve_texlive_bin_dir :: "'x spawn \<Rightarrow> 'x state \<Rightarrow> (exn + path option) \<times> 'x state" where
  "resolve_texlive_bin_dir sp s =
     (case iter_candidate_bin_dirs s of
        (candidate # rest, err) \<Rightarrow> (Inr (Some candidate), s)
      | ([], Some e) \<Rightarrow> (Inl (OSError e), s)
      | ([], None) \<Rightarrow> bin_dir_from_tlmgr sp s)"

section \<open>Making the binaries visible\<close>

text \<open>\<^verbatim>\<open>tlmgr_path_add\<close> (lines 152-160); the command runs with \<open>check\<close> off.\<close>

definition tlmgr_path_add :: "'x spawn \<Rightarrow> path \<Rightarrow> 'x state \<Rightarrow> (exn + bool) \<times> 'x state" where
  "tlmgr_path_add sp bin_dir s =
     (let existing_path = (case environ s ''PATH'' of None \<Rightarrow> [] | Some v \<Rightarrow> v);
          env = (environ s)(''PATH'' \<mapsto>
                   (if existing_path \<noteq> [] then path_str bin_dir @ '':'' @ existing_path
                    else path_str bin_dir))
      in case run_subprocess sp [''tlmgr'', ''path'', ''add''] None False (Some env) False s of
           (Inl (SystemExit n), s') \<Rightarrow> (Inr False, s')
         | (Inl (OSError e), s') \<Rightarrow> (Inl (OSError e), s')
         | (Inr cp, s') \<Rightarrow> (Inr True, s'))"

text \<open>
  \<^verbatim>\<open>symlink_binaries\<close> (lines 163-177).  \<open>try_link\<close> is the body of the \<^verbatim>\<open>try\<close>:
  the \<^verbatim>\<open>OSError\<close> it raised, if any, and the state it left.  \<open>symlink_loop\<close> is the
  \<^verbatim>\<open>for\<close> loop with its flag \<open>success\<close>.
\<close>

definition try_link :: "path \<Rightarrow> path \<Rightarrow> 'x state \<Rightarrow> oserror option \<times> 'x state" where
  "try_link binary target s =
     (if path_exists s target \<or> is_symlink s target then
        (case os_unlink target s of
           Inl e \<Rightarrow> (Some e, s)
         | Inr s1 \<Rightarrow>
             (case os_symlink binary target s1 of
                Inl e \<Rightarrow> (Some e, s1)
              | Inr s2 \<Rightarrow> (None, s2)))
      else (case os_symlink binary target s of
              Inl e \<Rightarrow> (Some e, s)
            | Inr s2 \<Rightarrow> (None, s2)))"

fun symlink_loop :: "path \<Rightarrow> path list \<Rightarrow> bool \<Rightarrow> 'x state \<Rightarrow> bool \<times> 'x state" where
  "symlink_loop destination [] success s = (success, s)"
| "symlink_loop destination (binary # binaries) success s =
     (if \<not> is_file s binary then symlink_loop destination binaries success s
      else (let target = destination @ [path_name binary]
            in case try_link binary target s of
                 (Some e, s') \<Rightarrow> symlink_loop destination binaries False s'
               | (None, s') \<Rightarrow> symlink_loop destination binaries success s'))"

definition symlink_binaries :: "path \<Rightarrow> path \<Rightarrow> 'x state \<Rightarrow> (exn + bool) \<times> 'x state" where
  "symlink_binaries bin_dir destination s =
     (case path_mkdir True True destination s of
        (Some e, s1) \<Rightarrow> (Inl (OSError e), s1)
      | (None, s1) \<Rightarrow>
          (case iterdir s1 bin_dir of
             Inl e \<Rightarrow> (Inl (OSError e), s1)
           | Inr binaries \<Rightarrow>
               (case symlink_loop destination binaries True s1 of
                  (success, s2) \<Rightarrow> (Inr success, s2))))"

section \<open>The install operation\<close>

text \<open>
  \<^verbatim>\<open>run_install\<close> (lines 180-208), with its last two steps named:
  \<open>symlink_fallback\<close> is lines 203-208, \<open>path_add_fallback\<close> lines 200-208.
\<close>

definition symlink_fallback :: "'x spawn \<Rightarrow> path \<Rightarrow> 'x state \<Rightarrow> (exn + unit) \<times> 'x state" where
  "symlink_fallback sp bin_dir s =
     (case symlink_binaries bin_dir SYMLINK_DESTINATION s of
        (Inl e, s1) \<Rightarrow> (Inl e, s1)
      | (Inr linked, s1) \<Rightarrow>
          if linked then
            (case check_path sp s1 of
               (Inl e, s2) \<Rightarrow> (Inl e, s2)
             | (Inr visible, s2) \<Rightarrow>
                 if visible then (Inr (), s2) else (Inl (SystemExit 1), s2))
          else (Inl (SystemExit 1), s1))"

definition path_add_fallback :: "'x spawn \<Rightarrow> path \<Rightarrow> 'x state \<Rightarrow> (exn + unit) \<times> 'x state" where
  "path_add_fallback sp bin_dir s =
     (case tlmgr_path_add sp bin_dir s of
        (Inl e, s1) \<Rightarrow> (Inl e, s1)
      | (Inr added, s1) \<Rightarrow>
          if added then
            (case check_path sp s1 of
               (Inl e, s2) \<Rightarrow> (Inl e, s2)
             | (Inr visible, s2) \<Rightarrow>
                 if visible then (Inr (), s2) else symlink_fallback sp bin_dir s2)
          else symlink_fallback sp bin_dir s1)"

definition run_install ::
  "'x spawn \<Rightarrow> string \<Rightarrow> string \<Rightarrow> string \<Rightarrow> string \<Rightarrow> path \<Rightarrow> 'x state
     \<Rightarrow> (exn + unit) \<times> 'x state" where
  "run_install sp version profile mirror archive_mirror workdir s =
     (case locate_install_tl workdir s of
        Inl e \<Rightarrow> (Inl e, s)
      | Inr installer \<Rightarrow>
          (let args = installer_args (path_str installer) version profile mirror archive_mirror
           in case run_subprocess sp args (Some workdir) True None False s of
                (Inl e, s1) \<Rightarrow> (Inl e, s1)
              | (Inr cp, s1) \<Rightarrow>
                  (case check_path sp s1 of
                     (Inl e, s2) \<Rightarrow> (Inl e, s2)
                   | (Inr visible, s2) \<Rightarrow>
                       if visible then (Inr (), s2)
                       else (case resolve_texlive_bin_dir sp s2 of
                               (Inl e, s3) \<Rightarrow> (Inl e, s3)
                             | (Inr None, s3) \<Rightarrow> (Inl (SystemExit 1), s3)
                             | (Inr (Some bin_dir), s3) \<Rightarrow> path_add_fallback sp bin_dir s3))))"

section \<open>Auxiliary notions for the statements\<close>

text \<open>Two states that differ in the file system at most.\<close>

definition same_process :: "'x state \<Rightarrow> 'x state \<Rightarrow> bool" where
  "same_process s s' \<longleftrightarrow>
     cwd s' = cwd s \<and> environ s' = environ s \<and> ext s' = ext s \<and> calls s' = calls s"













section \<open>Scenarios\<close>

text \<open>
  Concrete surroundings on which the theorems below are exercised.  \<open>scripted\<close> is a
  world in which the \<open>k\<close>-th subprocess invocation has the \<open>k\<close>-th result of a
  script (a command past the end of the script is not found) and no command touches the
  file system.  The working directory of \<open>demo_state\<close> is the root.
\<close>

definition scripted :: "proc_result list \<Rightarrow> 'x spawn" where
  "scripted script args cwd_arg env s =
     (let k = length (calls s)
      in (if k < length script then script ! k else Inl FileNotFoundError, fs s, ext s))"

definition demo_state :: "node \<Rightarrow> unit state" where
  "demo_state r = \<lparr>fs = r, cwd = [], environ = (\<lambda>x. None), ext = (), calls = []\<rparr>"

definition bare_fs :: node where
  "bare_fs = Dir [(''w'', Dir [(''install-tl'', File)])]"

definition texlive_fs :: node where
  "texlive_fs =
     Dir [(''w'', Dir [(''install-tl'', File)]),
          (''usr'', Dir [(''local'', Dir [(''texlive'', Dir
             [(''2022'', Dir [(''bin'', Dir [(''x86_64-linux'', Dir [(''tex'', File)])])]),
              (''2023'', Dir [(''bin'', Dir [(''x86_64-linux'',
                  Dir [(''tex'', File), (''latex'', Symlink [''tex'']), (''doc'', Dir [])])])]),
              (''texmf-local'', Dir [])])])])]"


definition texlive_bin :: path where
  "texlive_bin = [''/'', ''usr'', ''local'', ''texlive'', ''2023'', ''bin'', ''x86_64-linux'']"




section \<open>URL resolution\<close>

lemma rstrip_replicate: "rstrip (m @ replicate k c) [c] = rstrip m [c]"
  by (induction k) (simp_all add: rstrip_def replicate_app_Cons_same)

text \<open>
  Claim C2.  For every URL \<open>u\<close> and token \<open>t\<close>, \<open>append_cache_buster u t\<close> is \<open>u\<close>
  itself when \<open>t\<close> is empty or is the string \<open>0\<close>; otherwise it is \<open>u\<close> followed by
  \<open>&ts=\<close> and \<open>t\<close> when \<open>u\<close> contains a question mark, and \<open>u\<close> followed by
  \<open>?ts=\<close> and \<open>t\<close> when it does not.
\<close>

theorem append_cache_buster_spec:
  "(t = [] \<or> t = ''0'' \<longrightarrow> append_cache_buster u t = u) \<and>
   (t \<noteq> [] \<and> t \<noteq> ''0'' \<and> CHR ''?'' \<in> set u \<longrightarrow> append_cache_buster u t = u @ ''&ts='' @ t) \<and>
   (t \<noteq> [] \<and> t \<noteq> ''0'' \<and> CHR ''?'' \<notin> set u \<longrightarrow> append_cache_buster u t = u @ ''?ts='' @ t)"
  by (simp add: append_cache_buster_def)

theorem append_cache_buster_witness:
  "append_cache_buster ''http://h/a'' ''abc'' = ''http://h/a?ts=abc'' \<and>
   append_cache_buster ''http://h/a?x=1'' ''abc'' = ''http://h/a?x=1&ts=abc'' \<and>
   append_cache_buster ''http://h/a'' ''0'' = ''http://h/a'' \<and>
   append_cache_buster ''http://h/a'' [] = ''http://h/a''"
  using append_cache_buster_spec [of "''abc''" "''http://h/a''"]
    append_cache_buster_spec [of "''abc''" "''http://h/a?x=1''"]
    append_cache_buster_spec [of "''0''" "''http://h/a''"]
    append_cache_buster_spec [of "[]" "''http://h/a''"]
  by simp

text \<open>
  Claim C1.  The download URL is a total function of the version, the archive name and
  the mirror configuration (nothing in it can fail).  The root of a mirror is its
  configured value without trailing slashes.  For the version \<open>latest\<close> the URL is the
  root of the primary mirror, a slash and the archive name; for any other version it is
  the root of the archive mirror, a slash, the version, \<open>/tlnet-final/\<close> and the archive
  name.  In both cases the cache-buster is appended to that string afterwards.
\<close>

theorem download_url_spec:
  "(v = ''latest'' \<longrightarrow>
      download_url v name m am cb = append_cache_buster (rstrip m ''/'' @ ''/'' @ name) cb) \<and>
   (v \<noteq> ''latest'' \<longrightarrow>
      download_url v name m am cb =
        append_cache_buster (rstrip am ''/'' @ ''/'' @ v @ ''/tlnet-final/'' @ name) cb)"
  by (simp add: download_url_def)

theorem download_url_witness:
  "download_url ''latest'' ''foo.tar.gz'' ''https://example.test/tlnet'' ''ftp://example.test/hist'' ''0''
     = ''https://example.test/tlnet/foo.tar.gz'' \<and>
   download_url ''2023'' ''foo.tar.gz'' ''https://example.test/tlnet'' ''ftp://example.test/hist'' ''42''
     = ''ftp://example.test/hist/2023/tlnet-final/foo.tar.gz?ts=42''"
  using download_url_spec [of "''latest''" "''foo.tar.gz''" "''https://example.test/tlnet''"
      "''ftp://example.test/hist''" "''0''"]
    download_url_spec [of "''2023''" "''foo.tar.gz''" "''https://example.test/tlnet''"
      "''ftp://example.test/hist''" "''42''"]
  by (simp add: rstrip_def append_cache_buster_def)

text \<open>
  Claim C10.  Trailing slashes of the configured mirrors change nothing: the download
  URL and the installer's argument vector (with its \<open>--location\<close> and \<open>--repository\<close>
  arguments) built from a mirror \<open>m\<close> and an archive mirror \<open>am\<close> are those built
  from \<open>m\<close> and \<open>am\<close> followed by any number of slashes.
\<close>

theorem trailing_slash_invariance:
  "download_url v name (m @ replicate j CHR ''/'') (am @ replicate k CHR ''/'') cb
     = download_url v name m am cb \<and>
   installer_args installer v profile (m @ replicate j CHR ''/'') (am @ replicate k CHR ''/'')
     = installer_args installer v profile m am"
  by (simp add: download_url_def installer_args_def rstrip_replicate)

theorem trailing_slash_invariance_witness:
  "download_url ''2023'' ''i.tgz'' ''http://m//'' ''ftp://a///'' ''7''
     = download_url ''2023'' ''i.tgz'' ''http://m'' ''ftp://a'' ''7'' \<and>
   installer_args ''/w/install-tl'' ''2023'' ''p'' ''http://m//'' ''ftp://a///''
     = [''perl'', ''/w/install-tl'', ''--profile=p'', ''--location=http://m/'',
        ''--repository=ftp://a/2023/tlnet-final'']"
  using trailing_slash_invariance [of "''2023''" "''i.tgz''" "''http://m''" 2 "''ftp://a''" 3 "''7''"
      "''/w/install-tl''" "''p''"]
  by (simp add: numeral_2_eq_2 numeral_3_eq_3 installer_args_def rstrip_def)

section \<open>The process runner and the entry point\<close>

lemma pair_fst: "fst p = a \<Longrightarrow> p = (a, snd p)"
  by (cases p) simp

text \<open>
  Claim C7, as amended.  Let \<open>res\<close> be what the command does.  If it returns a code
  \<open>rc\<close> other than zero and failure-checking is on, the runner ends the process with
  \<^verbatim>\<open>SystemExit(rc)\<close>; the exit status of the process is then \<open>rc mod 256\<close>, which is
  the same code \<open>rc\<close> whenever the command exited with a code from 1 to 255.  If the
  command is not found, the runner ends the process with \<^verbatim>\<open>SystemExit(1)\<close>, exit
  status 1.  If the command returns normally (code zero, or any code with failure-checking
  off) and output suppression is requested, the caller gets the completed process with the
  captured standard output and standard error.
\<close>

theorem run_subprocess_spec:
  "sp args (map_option path_str cwd_arg) env s = (res, fs', ext') \<Longrightarrow>
   (\<forall>rc out err. res = Inr (rc, out, err) \<and> check \<and> rc \<noteq> 0 \<longrightarrow>
      (\<exists>e. fst (run_subprocess sp args cwd_arg check env quiet s) = Inl e \<and>
           e = SystemExit rc \<and> exit_status e = rc mod 256 \<and>
           (0 < rc \<and> rc < 256 \<longrightarrow> exit_status e = rc))) \<and>
   (res = Inl FileNotFoundError \<longrightarrow>
      (\<exists>e. fst (run_subprocess sp args cwd_arg check env quiet s) = Inl e \<and>
           e = SystemExit 1 \<and> exit_status e = 1)) \<and>
   (\<forall>rc out err. res = Inr (rc, out, err) \<and> (check \<longrightarrow> rc = 0) \<longrightarrow>
      fst (run_subprocess sp args cwd_arg check env True s) =
        Inr \<lparr>cp_args = args, returncode = rc, stdout = Some out, stderr = Some err\<rparr>)"
  by (auto simp: run_subprocess_def Let_def)

theorem run_subprocess_witness:
  "fst (run_subprocess (scripted [Inr (3, ''o'', ''e'')]) [''x''] None True None False
          (demo_state bare_fs)) = Inl (SystemExit 3) \<and>
   exit_status (SystemExit 3) = 3 \<and>
   fst (run_subprocess (scripted []) [''x''] None True None False (demo_state bare_fs))
     = Inl (SystemExit 1) \<and>
   fst (run_subprocess (scripted [Inr (0, ''o'', ''e'')]) [''x''] None True None True
          (demo_state bare_fs))
     = Inr \<lparr>cp_args = [''x''], returncode = 0, stdout = Some ''o'', stderr = Some ''e''\<rparr>"
proof -
  have h1: "scripted [Inr (3, ''o'', ''e'')] [''x''] (map_option path_str None) None
              (demo_state bare_fs) = (Inr (3, ''o'', ''e''), bare_fs, ())"
    by (simp add: scripted_def demo_state_def)
  have h2: "scripted [] [''x''] (map_option path_str None) None (demo_state bare_fs)
              = (Inl FileNotFoundError, bare_fs, ())"
    by (simp add: scripted_def demo_state_def)
  have h3: "scripted [Inr (0, ''o'', ''e'')] [''x''] (map_option path_str None) None
              (demo_state bare_fs) = (Inr (0, ''o'', ''e''), bare_fs, ())"
    by (simp add: scripted_def demo_state_def)
  show ?thesis
    using
      run_subprocess_spec [where sp = "scripted [Inr (3, ''o'', ''e'')]" and cwd_arg = None
        and check = True and quiet = False, OF h1]
      run_subprocess_spec [where sp = "scripted []" and cwd_arg = None
        and check = True and quiet = False, OF h2]
      run_subprocess_spec [where sp = "scripted [Inr (0, ''o'', ''e'')]" and cwd_arg = None
        and check = True, OF h3]
    by simp
qed

text \<open>
  Claim C7 as it was stated fails for a command that a signal ends: killed by signal 9,
  it has the return code \<open>- 9\<close>, failure-checking raises
  \<^verbatim>\<open>CalledProcessError\<close>, the runner raises \<^verbatim>\<open>SystemExit(-9)\<close>, and the process
  ends with exit status 247, which is not the code \<open>- 9\<close> that was logged.
\<close>

theorem run_subprocess_signal_counterexample:
  "fst (run_subprocess (scripted [Inr (- 9, [], [])]) [''x''] None True None False
          (demo_state bare_fs)) = Inl (SystemExit (- 9)) \<and>
   (case fst (run_subprocess (scripted [Inr (- 9, [], [])]) [''x''] None True None False
          (demo_state bare_fs)) of
      Inl e \<Rightarrow> exit_status e = 247 \<and> exit_status e \<noteq> - 9
    | Inr cp \<Rightarrow> False)"
  by (simp add: run_subprocess_def scripted_def demo_state_def)

text \<open>
  What one run of the process runner leaves in the record of invocations, by the way it
  ended.
\<close>

lemma run_subprocess_calls:
  "run_subprocess sp args cwd_arg check env quiet s = (r, s') \<Longrightarrow>
   \<exists>res. calls s' = calls s @ [(args, res)] \<and> cwd s' = cwd s \<and> environ s' = environ s \<and>
     (case r of
        Inl e \<Rightarrow> (case e of SystemExit n \<Rightarrow> (res = Inl FileNotFoundError \<and> n = 1) \<or>
                                 (\<exists>out err. res = Inr (n, out, err) \<and> check \<and> n \<noteq> 0)
                   | OSError e' \<Rightarrow> res = Inl e' \<and> e' \<noteq> FileNotFoundError)
      | Inr cp \<Rightarrow> \<exists>out err. res = Inr (returncode cp, out, err) \<and> (check \<longrightarrow> returncode cp = 0))"
  by (auto simp: run_subprocess_def Let_def split: prod.splits sum.splits if_splits exn.splits)

lemma check_path_cases:
  "check_path sp s = (r, s') \<Longrightarrow>
   \<exists>res. calls s' = calls s @ [(probe_command, res)] \<and>
     (r = Inr True \<longrightarrow> (\<exists>out err. res = Inr (0, out, err))) \<and>
     (r = Inr False \<longrightarrow> res = Inl FileNotFoundError \<or> (\<exists>rc out err. res = Inr (rc, out, err) \<and> rc \<noteq> 0)) \<and>
     (\<forall>e. r = Inl e \<longrightarrow> (\<exists>e'. e = OSError e' \<and> res = Inl e' \<and> e' \<noteq> FileNotFoundError))"
  unfolding check_path_def
  by (auto split: prod.splits sum.splits exn.splits dest!: run_subprocess_calls)

lemma check_path_True:
  "check_path sp s = (Inr True, s') \<Longrightarrow>
   \<exists>pre out err. calls s' = pre @ [(probe_command, Inr (0, out, err))]"
  by (drule check_path_cases) auto

text \<open>
  Claim C6.  In a working directory with neither a regular file \<open>install-tl\<close> nor a
  regular file \<open>install-tl/install-tl\<close>, the install operation ends with
  \<^verbatim>\<open>SystemExit(1)\<close> in the state it started in: nothing was invoked, whatever the
  commands would have done.  When the direct file exists it is the entry point; the
  nested one is the entry point only when the direct one is missing.
\<close>

theorem install_without_entry_point:
  "(\<not> is_file s (wd @ [''install-tl'']) \<and> \<not> is_file s (wd @ [''install-tl'', ''install-tl'']) \<longrightarrow>
      run_install sp v p m am wd s = (Inl (SystemExit 1), s)) \<and>
   (is_file s (wd @ [''install-tl'']) \<longrightarrow> locate_install_tl wd s = Inr (wd @ [''install-tl''])) \<and>
   (\<not> is_file s (wd @ [''install-tl'']) \<and> is_file s (wd @ [''install-tl'', ''install-tl'']) \<longrightarrow>
      locate_install_tl wd s = Inr (wd @ [''install-tl'', ''install-tl'']))"
  by (simp add: run_install_def locate_install_tl_def)

theorem install_without_entry_point_witness:
  "\<not> is_file (demo_state (Dir [(''w'', Dir [])])) [''w'', ''install-tl''] \<and>
   \<not> is_file (demo_state (Dir [(''w'', Dir [])])) [''w'', ''install-tl'', ''install-tl''] \<and>
   run_install (scripted [Inr (0, [], [])]) ''latest'' ''p'' ''m'' ''am'' [''w'']
       (demo_state (Dir [(''w'', Dir [])]))
     = (Inl (SystemExit 1), demo_state (Dir [(''w'', Dir [])])) \<and>
   is_file (demo_state bare_fs) [''w'', ''install-tl''] \<and>
   locate_install_tl [''w''] (demo_state bare_fs) = Inr [''w'', ''install-tl'']"
proof -
  have n1: "\<not> is_file (demo_state (Dir [(''w'', Dir [])])) ([''w''] @ [''install-tl''])"
    by code_simp
  have n2: "\<not> is_file (demo_state (Dir [(''w'', Dir [])])) ([''w''] @ [''install-tl'', ''install-tl''])"
    by code_simp
  have y: "is_file (demo_state bare_fs) ([''w''] @ [''install-tl''])"
    by code_simp
  show ?thesis
    using n1 n2 y
      install_without_entry_point [of "demo_state (Dir [(''w'', Dir [])])" "[''w'']"
        "scripted [Inr (0, [], [])]" "''latest''" "''p''" "''m''" "''am''"]
      install_without_entry_point [of "demo_state bare_fs" "[''w'']"]
    by simp
qed

section \<open>The fallback chain of the install operation\<close>

lemma symlink_fallback_success:
  "symlink_fallback sp bd s = (Inr (), s') \<Longrightarrow>
   \<exists>pre out err. calls s' = pre @ [(probe_command, Inr (0, out, err))]"
  unfolding symlink_fallback_def
  by (auto split: prod.splits sum.splits if_splits dest: check_path_True)

lemma path_add_fallback_success:
  "path_add_fallback sp bd s = (Inr (), s') \<Longrightarrow>
   \<exists>pre out err. calls s' = pre @ [(probe_command, Inr (0, out, err))]"
  unfolding path_add_fallback_def
  by (auto split: prod.splits sum.splits if_splits dest: check_path_True symlink_fallback_success)

lemma run_install_success:
  "run_install sp v p m am wd s = (Inr (), s') \<Longrightarrow>
   \<exists>pre out err. calls s' = pre @ [(probe_command, Inr (0, out, err))]"
  unfolding run_install_def Let_def
  by (auto split: prod.splits sum.splits if_splits option.splits
      dest: check_path_True path_add_fallback_success)

text \<open>
  Claim C3.  Suppose the entry point is found, the installer runs, and the probe that
  follows fails.  (a) If the resolver finds no binary directory, the install operation
  ends with \<^verbatim>\<open>SystemExit(1)\<close>.  (b) If it finds one, and the probe still fails after
  the vendor path-add step (the step reported failure, or it ran and the probe failed)
  and again after the symbolic links were made, the install operation ends with
  \<^verbatim>\<open>SystemExit(1)\<close>.  And whenever the install operation returns normally, the last
  command it ran was the probe, and the probe returned zero.
\<close>

theorem run_install_path_visibility:
  "(locate_install_tl wd s = Inr installer \<and>
    run_subprocess sp (installer_args (path_str installer) v p m am) (Some wd) True None False s
      = (Inr cp, s1) \<and>
    check_path sp s1 = (Inr False, s2) \<longrightarrow>
      (resolve_texlive_bin_dir sp s2 = (Inr None, s3) \<longrightarrow>
         run_install sp v p m am wd s = (Inl (SystemExit 1), s3)) \<and>
      (resolve_texlive_bin_dir sp s2 = (Inr (Some bd), s3) \<and>
       (tlmgr_path_add sp bd s3 = (Inr False, s5) \<or>
        tlmgr_path_add sp bd s3 = (Inr True, s4) \<and> check_path sp s4 = (Inr False, s5)) \<and>
       symlink_binaries bd SYMLINK_DESTINATION s5 = (Inr True, s6) \<and>
       check_path sp s6 = (Inr False, s7) \<longrightarrow>
         run_install sp v p m am wd s = (Inl (SystemExit 1), s7))) \<and>
   (run_install sp v p m am wd s = (Inr (), s') \<longrightarrow>
      (\<exists>out err. calls s' \<noteq> [] \<and> last (calls s') = (probe_command, Inr (0, out, err))))"
proof -
  have "\<exists>out err. calls s' \<noteq> [] \<and> last (calls s') = (probe_command, Inr (0, out, err))"
    if "run_install sp v p m am wd s = (Inr (), s')"
    using run_install_success [OF that] by auto
  then show ?thesis
    by (auto simp: run_install_def path_add_fallback_def symlink_fallback_def)
qed

theorem run_install_path_visibility_witness:
  "fst (run_install (scripted [Inr (0, [], []), Inr (1, [], [])]) ''latest'' ''p'' ''m'' ''am''
          [''w''] (demo_state bare_fs)) = Inl (SystemExit 1) \<and>
   fst (run_install
          (scripted [Inr (0, [], []), Inr (1, [], []), Inr (0, [], []), Inr (1, [], []), Inr (1, [], [])])
          ''latest'' ''p'' ''m'' ''am'' [''w''] (demo_state texlive_fs)) = Inl (SystemExit 1) \<and>
   fst (run_install (scripted [Inr (0, [], []), Inr (0, [], [])]) ''latest'' ''p'' ''m'' ''am''
          [''w''] (demo_state bare_fs)) = Inr () \<and>
   (\<exists>out err. last (calls (snd (run_install (scripted [Inr (0, [], []), Inr (0, [], [])])
          ''latest'' ''p'' ''m'' ''am'' [''w''] (demo_state bare_fs))))
      = (probe_command, Inr (0, out, err)))"
proof -
  let ?wd = "[''w'']"
  let ?inst = "[''w'', ''install-tl'']"
  let ?args = "installer_args (path_str ?inst) ''latest'' ''p'' ''m'' ''am''"
  let ?cp = "\<lparr>cp_args = ?args, returncode = 0, stdout = None, stderr = None\<rparr>"
  txt \<open>(a) no binary directory anywhere, and no tlmgr\<close>
  let ?spa = "scripted [Inr (0, [], []), Inr (1, [], [])] :: unit spawn"
  let ?a0 = "demo_state bare_fs"
  let ?a1 = "snd (run_subprocess ?spa ?args (Some ?wd) True None False ?a0)"
  let ?a2 = "snd (check_path ?spa ?a1)"
  let ?a3 = "snd (resolve_texlive_bin_dir ?spa ?a2)"
  have a_loc: "locate_install_tl ?wd ?a0 = Inr ?inst" by code_simp
  have "fst (run_subprocess ?spa ?args (Some ?wd) True None False ?a0) = Inr ?cp" by code_simp
  then have a_run: "run_subprocess ?spa ?args (Some ?wd) True None False ?a0 = (Inr ?cp, ?a1)"
    by (rule pair_fst)
  have "fst (check_path ?spa ?a1) = Inr False" by code_simp
  then have a_probe: "check_path ?spa ?a1 = (Inr False, ?a2)" by (rule pair_fst)
  have "fst (resolve_texlive_bin_dir ?spa ?a2) = Inr None" by code_simp
  then have a_res: "resolve_texlive_bin_dir ?spa ?a2 = (Inr None, ?a3)" by (rule pair_fst)
  have A: "run_install ?spa ''latest'' ''p'' ''m'' ''am'' ?wd ?a0 = (Inl (SystemExit 1), ?a3)"
    using run_install_path_visibility [where wd = ?wd and s = ?a0 and installer = ?inst
        and sp = ?spa and v = "''latest''" and p = "''p''" and m = "''m''" and am = "''am''"
        and cp = ?cp and ?s1.0 = ?a1 and ?s2.0 = ?a2 and ?s3.0 = ?a3]
      a_loc a_run a_probe a_res
    by blast
  txt \<open>(b) a binary directory, but no probe ever succeeds\<close>
  let ?spb = "scripted [Inr (0, [], []), Inr (1, [], []), Inr (0, [], []), Inr (1, [], []),
      Inr (1, [], [])] :: unit spawn"
  let ?b0 = "demo_state texlive_fs"
  let ?b1 = "snd (run_subprocess ?spb ?args (Some ?wd) True None False ?b0)"
  let ?b2 = "snd (check_path ?spb ?b1)"
  let ?b3 = "snd (resolve_texlive_bin_dir ?spb ?b2)"
  let ?b4 = "snd (tlmgr_path_add ?spb texlive_bin ?b3)"
  let ?b5 = "snd (check_path ?spb ?b4)"
  let ?b6 = "snd (symlink_binaries texlive_bin SYMLINK_DESTINATION ?b5)"
  let ?b7 = "snd (check_path ?spb ?b6)"
  have b_loc: "locate_install_tl ?wd ?b0 = Inr ?inst" by code_simp
  have "fst (run_subprocess ?spb ?args (Some ?wd) True None False ?b0) = Inr ?cp" by code_simp
  then have b_run: "run_subprocess ?spb ?args (Some ?wd) True None False ?b0 = (Inr ?cp, ?b1)"
    by (rule pair_fst)
  have "fst (check_path ?spb ?b1) = Inr False" by code_simp
  then have b_probe: "check_path ?spb ?b1 = (Inr False, ?b2)" by (rule pair_fst)
  have "fst (resolve_texlive_bin_dir ?spb ?b2) = Inr (Some texlive_bin)" by code_simp
  then have b_res: "resolve_texlive_bin_dir ?spb ?b2 = (Inr (Some texlive_bin), ?b3)"
    by (rule pair_fst)
  have "fst (tlmgr_path_add ?spb texlive_bin ?b3) = Inr True" by code_simp
  then have b_add: "tlmgr_path_add ?spb texlive_bin ?b3 = (Inr True, ?b4)" by (rule pair_fst)
  have "fst (check_path ?spb ?b4) = Inr False" by code_simp
  then have b_probe2: "check_path ?spb ?b4 = (Inr False, ?b5)" by (rule pair_fst)
  have "fst (symlink_binaries texlive_bin SYMLINK_DESTINATION ?b5) = Inr True" by code_simp
  then have b_link: "symlink_binaries texlive_bin SYMLINK_DESTINATION ?b5 = (Inr True, ?b6)"
    by (rule pair_fst)
  have "fst (check_path ?spb ?b6) = Inr False" by code_simp
  then have b_probe3: "check_path ?spb ?b6 = (Inr False, ?b7)" by (rule pair_fst)
  have B: "run_install ?spb ''latest'' ''p'' ''m'' ''am'' ?wd ?b0 = (Inl (SystemExit 1), ?b7)"
    using run_install_path_visibility [where wd = ?wd and s = ?b0 and installer = ?inst
        and sp = ?spb and v = "''latest''" and p = "''p''" and m = "''m''" and am = "''am''"
        and cp = ?cp and ?s1.0 = ?b1 and ?s2.0 = ?b2 and ?s3.0 = ?b3 and bd = texlive_bin
        and ?s4.0 = ?b4 and ?s5.0 = ?b5 and ?s6.0 = ?b6 and ?s7.0 = ?b7]
      b_loc b_run b_probe b_res b_add b_probe2 b_link b_probe3
    by blast
  txt \<open>success at the first probe\<close>
  let ?spc = "scripted [Inr (0, [], []), Inr (0, [], [])] :: unit spawn"
  let ?c = "run_install ?spc ''latest'' ''p'' ''m'' ''am'' ?wd ?a0"
  have "fst ?c = Inr ()" by code_simp
  then have c_run: "?c = (Inr (), snd ?c)" by (rule pair_fst)
  have C: "\<exists>out err. last (calls (snd ?c)) = (probe_command, Inr (0, out, err))"
    using run_install_path_visibility [where wd = ?wd and s = ?a0
        and sp = ?spc and v = "''latest''" and p = "''p''" and m = "''m''" and am = "''am''"
        and s' = "snd ?c"] c_run
    by blast
  from A B c_run C show ?thesis
    by (metis fst_conv)
qed

section \<open>The symbolic links: what stays, and partial failure\<close>

text \<open>The file operations touch the file system only.\<close>

lemma same_process_refl [simp]: "same_process s s"
  by (simp add: same_process_def)













section \<open>The vendor path-add step\<close>

lemma tlmgr_path_add_cases:
  "tlmgr_path_add sp bd s = (r, s1) \<Longrightarrow>
   \<exists>res. calls s1 = calls s @ [([''tlmgr'', ''path'', ''add''], res)] \<and>
     (res = Inl FileNotFoundError \<longrightarrow> r = Inr False) \<and>
     (\<forall>rc out err. res = Inr (rc, out, err) \<longrightarrow> r = Inr True) \<and>
     (\<forall>e. res = Inl e \<and> e \<noteq> FileNotFoundError \<longrightarrow> r = Inl (OSError e))"
proof -
  assume run: "tlmgr_path_add sp bd s = (r, s1)"
  define env where "env = (environ s)(''PATH'' \<mapsto>
      (if (case environ s ''PATH'' of None \<Rightarrow> [] | Some v \<Rightarrow> v) \<noteq> []
       then path_str bd @ '':'' @ (case environ s ''PATH'' of None \<Rightarrow> [] | Some v \<Rightarrow> v)
       else path_str bd))"
  obtain r0 s0 where sub:
    "run_subprocess sp [''tlmgr'', ''path'', ''add''] None False (Some env) False s = (r0, s0)"
    by (cases "run_subprocess sp [''tlmgr'', ''path'', ''add''] None False (Some env) False s")
  from run sub have eq: "tlmgr_path_add sp bd s =
      (case r0 of Inl e \<Rightarrow> (case e of SystemExit n \<Rightarrow> (Inr False, s0) | OSError e' \<Rightarrow> (Inl (OSError e'), s0))
                | Inr cp \<Rightarrow> (Inr True, s0))"
    by (simp add: tlmgr_path_add_def Let_def env_def split: sum.splits exn.splits)
  from run_subprocess_calls [OF sub] obtain res where
    c: "calls s0 = calls s @ [([''tlmgr'', ''path'', ''add''], res)]"
    and k: "case r0 of
        Inl e \<Rightarrow> (case e of SystemExit n \<Rightarrow> (res = Inl FileNotFoundError \<and> n = 1) \<or>
                                 (\<exists>out err. res = Inr (n, out, err) \<and> False \<and> n \<noteq> 0)
                   | OSError e' \<Rightarrow> res = Inl e' \<and> e' \<noteq> FileNotFoundError)
      | Inr cp \<Rightarrow> \<exists>out err. res = Inr (returncode cp, out, err) \<and> (False \<longrightarrow> returncode cp = 0)"
    by blast
  show ?thesis
  proof (cases r0)
    case (Inr cp)
    with eq run c k show ?thesis by auto
  next
    case (Inl e)
    show ?thesis
    proof (cases e)
      case (SystemExit n)
      with Inl eq run c k show ?thesis by auto
    next
      case (OSError e')
      with Inl eq run c k show ?thesis by auto
    qed
  qed
qed

text \<open>
  Claim C9, as amended.  The vendor path-add step never ends the install operation by
  itself when the \<open>tlmgr\<close> command is missing or runs, whatever its return code.  If
  the command is not found, control goes to the manual symlink fallback.  If the command
  runs (its return code is ignored) and the probe that follows fails, control goes to the
  manual symlink fallback.  If the command runs and the probe that follows succeeds, the
  install operation returns normally, also when \<open>tlmgr\<close> returned a code other than
  zero.
\<close>

theorem path_add_failure_not_fatal:
  "tlmgr_path_add sp bd s = (r, s1) \<Longrightarrow>
   (\<exists>res. calls s1 = calls s @ [([''tlmgr'', ''path'', ''add''], res)] \<and>
      (res = Inl FileNotFoundError \<longrightarrow>
         path_add_fallback sp bd s = symlink_fallback sp bd s1) \<and>
      (\<forall>rc out err. res = Inr (rc, out, err) \<longrightarrow>
         (\<forall>s2. check_path sp s1 = (Inr False, s2) \<longrightarrow>
            path_add_fallback sp bd s = symlink_fallback sp bd s2) \<and>
         (\<forall>s2. check_path sp s1 = (Inr True, s2) \<longrightarrow>
            path_add_fallback sp bd s = (Inr (), s2))))"
proof -
  assume run: "tlmgr_path_add sp bd s = (r, s1)"
  from tlmgr_path_add_cases [OF run] obtain res where
    c: "calls s1 = calls s @ [([''tlmgr'', ''path'', ''add''], res)]"
    and nf: "res = Inl FileNotFoundError \<longrightarrow> r = Inr False"
    and ok: "\<forall>rc out err. res = Inr (rc, out, err) \<longrightarrow> r = Inr True"
    by blast
  have a: "path_add_fallback sp bd s = symlink_fallback sp bd s1" if "res = Inl FileNotFoundError"
    using that nf run by (simp add: path_add_fallback_def)
  have b: "path_add_fallback sp bd s = symlink_fallback sp bd s2"
    if "res = Inr (rc, out, err)" "check_path sp s1 = (Inr False, s2)" for rc out err s2
    using that ok run by (simp add: path_add_fallback_def)
  have d: "path_add_fallback sp bd s = (Inr (), s2)"
    if "res = Inr (rc, out, err)" "check_path sp s1 = (Inr True, s2)" for rc out err s2
    using that ok run by (simp add: path_add_fallback_def)
  from c a b d show ?thesis by blast
qed

theorem path_add_failure_not_fatal_witness:
  "path_add_fallback (scripted []) texlive_bin (demo_state texlive_fs)
     = symlink_fallback (scripted []) texlive_bin
         (snd (tlmgr_path_add (scripted []) texlive_bin (demo_state texlive_fs))) \<and>
   path_add_fallback (scripted [Inr (1, [], []), Inr (1, [], [])]) texlive_bin (demo_state texlive_fs)
     = symlink_fallback (scripted [Inr (1, [], []), Inr (1, [], [])]) texlive_bin
         (snd (check_path (scripted [Inr (1, [], []), Inr (1, [], [])])
            (snd (tlmgr_path_add (scripted [Inr (1, [], []), Inr (1, [], [])]) texlive_bin
               (demo_state texlive_fs))))) \<and>
   fst (path_add_fallback (scripted [Inr (1, [], []), Inr (0, [], [])]) texlive_bin
          (demo_state texlive_fs)) = Inr ()"
proof -
  let ?s = "demo_state texlive_fs"
  let ?cmd = "[''tlmgr'', ''path'', ''add'']"
  txt \<open>tlmgr is not found\<close>
  let ?spa = "scripted [] :: unit spawn"
  let ?a1 = "snd (tlmgr_path_add ?spa texlive_bin ?s)"
  have a_run: "tlmgr_path_add ?spa texlive_bin ?s = (fst (tlmgr_path_add ?spa texlive_bin ?s), ?a1)"
    by simp
  have a_calls: "calls ?a1 = calls ?s @ [(?cmd, Inl FileNotFoundError)]" by code_simp
  have A: "path_add_fallback ?spa texlive_bin ?s = symlink_fallback ?spa texlive_bin ?a1"
    using path_add_failure_not_fatal [OF a_run] a_calls by auto
  txt \<open>tlmgr returns 1 and the probe fails\<close>
  let ?spb = "scripted [Inr (1, [], []), Inr (1, [], [])] :: unit spawn"
  let ?b1 = "snd (tlmgr_path_add ?spb texlive_bin ?s)"
  let ?b2 = "snd (check_path ?spb ?b1)"
  have b_run: "tlmgr_path_add ?spb texlive_bin ?s = (fst (tlmgr_path_add ?spb texlive_bin ?s), ?b1)"
    by simp
  have b_calls: "calls ?b1 = calls ?s @ [(?cmd, Inr (1, [], []))]" by code_simp
  have "fst (check_path ?spb ?b1) = Inr False" by code_simp
  then have b_probe: "check_path ?spb ?b1 = (Inr False, ?b2)" by (rule pair_fst)
  have B: "path_add_fallback ?spb texlive_bin ?s = symlink_fallback ?spb texlive_bin ?b2"
    using path_add_failure_not_fatal [OF b_run] b_calls b_probe by auto
  txt \<open>tlmgr returns 1 and the probe succeeds\<close>
  let ?spc = "scripted [Inr (1, [], []), Inr (0, [], [])] :: unit spawn"
  let ?c1 = "snd (tlmgr_path_add ?spc texlive_bin ?s)"
  let ?c2 = "snd (check_path ?spc ?c1)"
  have c_run: "tlmgr_path_add ?spc texlive_bin ?s = (fst (tlmgr_path_add ?spc texlive_bin ?s), ?c1)"
    by simp
  have c_calls: "calls ?c1 = calls ?s @ [(?cmd, Inr (1, [], []))]" by code_simp
  have "fst (check_path ?spc ?c1) = Inr True" by code_simp
  then have c_probe: "check_path ?spc ?c1 = (Inr True, ?c2)" by (rule pair_fst)
  have C: "path_add_fallback ?spc texlive_bin ?s = (Inr (), ?c2)"
    using path_add_failure_not_fatal [OF c_run] c_calls c_probe by auto
  from A B C show ?thesis by simp
qed

text \<open>
  Claim C9 as it was stated fails where \<open>tlmgr path add\<close> returns a code other than
  zero and the probe after it succeeds: in the run below the installer succeeds, the first
  probe fails, \<open>tlmgr path add\<close> returns 1, the second probe succeeds.  The install
  operation returns normally after these four commands; the file system is the one it
  started with, and the destination of the symbolic links does not even exist: control
  never reached the manual symlink fallback.
\<close>

theorem path_add_nonzero_counterexample:
  "fst (run_install
          (scripted [Inr (0, [], []), Inr (1, [], []), Inr (1, [], []), Inr (0, [], [])])
          ''2023'' ''p'' ''m'' ''am'' [''w''] (demo_state texlive_fs)) = Inr () \<and>
   calls (snd (run_install
          (scripted [Inr (0, [], []), Inr (1, [], []), Inr (1, [], []), Inr (0, [], [])])
          ''2023'' ''p'' ''m'' ''am'' [''w''] (demo_state texlive_fs))) ! 2
     = ([''tlmgr'', ''path'', ''add''], Inr (1, [], [])) \<and>
   length (calls (snd (run_install
          (scripted [Inr (0, [], []), Inr (1, [], []), Inr (1, [], []), Inr (0, [], [])])
          ''2023'' ''p'' ''m'' ''am'' [''w''] (demo_state texlive_fs)))) = 4 \<and>
   fs (snd (run_install
          (scripted [Inr (0, [], []), Inr (1, [], []), Inr (1, [], []), Inr (0, [], [])])
          ''2023'' ''p'' ''m'' ''am'' [''w''] (demo_state texlive_fs))) = texlive_fs \<and>
   \<not> path_exists (snd (run_install
          (scripted [Inr (0, [], []), Inr (1, [], []), Inr (1, [], []), Inr (0, [], [])])
          ''2023'' ''p'' ''m'' ''am'' [''w''] (demo_state texlive_fs))) SYMLINK_DESTINATION"
  by code_simp

section \<open>Finding the binary directory: order and outcome\<close>





















section \<open>The symlink fixer: what it leaves in the destination\<close>



















































end
